theory Spec2Isabelle
  imports Main "HOL-Library.Word"
begin

section \<open>The idle-monitor portal (src/idle-monitor.c)\<close>

text \<open>
  The portal forwards a client's GetIdletime call to a backend over D-Bus and relays the
  backend's watch-fired signal. Every function of the file is embedded as a function on an
  explicit state. What the C code does to the outside (queries and writes of the permission
  store, log lines, D-Bus calls, replies and signals) is appended to a trace, oldest first.

  \<open>REQUEST_AUTOLOCK\<close> holds the request's mutex for the whole body of the task and of the
  callback; each of the two is one step here. The handler takes no lock.
\<close>

subsection \<open>Values of GLib and D-Bus\<close>

type_synonym guint32 = "32 word"

text \<open>A \<open>gint\<close> is a 32-bit two's complement integer; \<open>sint\<close> reads its value.\<close>

type_synonym gint = "32 word"

text \<open>GLib's \<open>G_MAXINT\<close> is \<open>INT_MAX\<close>.\<close>

definition G_MAXINT :: gint where
  "G_MAXINT = 0x7FFFFFFF"

text \<open>The basic D-Bus values a vardict entry may hold.\<close>

datatype GVariant =
    VBoolean bool
  | VInt32 "32 word"
  | VUInt32 guint32
  | VString string

text \<open>
  A vardict (\<open>a{sv}\<close>) is an array of entries: order and duplicates exist on the wire,
  and a lookup takes the first entry with the key.
\<close>

type_synonym vardict = "(string \<times> GVariant) list"

text \<open>
  \<open>g_variant_lookup (dictionary, key, "u", &out)\<close>: the first entry with the key is
  taken; when there is none, or its value is not of type \<open>u\<close>, the call returns FALSE and
  leaves \<open>out\<close> as it was, otherwise it stores the value and returns TRUE.
\<close>

definition g_variant_lookup_u :: "vardict \<Rightarrow> string \<Rightarrow> guint32 \<Rightarrow> bool \<times> guint32" where
  "g_variant_lookup_u dictionary key out =
     (case map_of dictionary key of
        None \<Rightarrow> (False, out)
      | Some v \<Rightarrow> (case v of VUInt32 w \<Rightarrow> (True, w) | _ \<Rightarrow> (False, out)))"

subsection \<open>Permissions, requests and the state\<close>

text \<open>
  Modelled from the spec: the enum \<open>Permission\<close> is declared in permissions.h, which is
  not among the sources. The spec gives a permission record the values Yes, No and Unset;
  the source names them \<open>PERMISSION_YES\<close>, \<open>PERMISSION_NO\<close> and \<open>PERMISSION_UNSET\<close>.
\<close>

datatype Permission = PERMISSION_UNSET | PERMISSION_NO | PERMISSION_YES

definition PERMISSION_TABLE :: string where
  "PERMISSION_TABLE = ''idle-monitor''"

definition PERMISSION_ID :: string where
  "PERMISSION_ID = ''idle-monitor''"

text \<open>The store is keyed by (application id, table, permission id).\<close>

type_synonym permission_store = "string \<times> string \<times> string \<Rightarrow> Permission"

record XdpAppInfo =
  info_id :: string

text \<open>
  Modelled from the spec: \<open>Request\<close> and \<open>XdpAppInfo\<close> are declared in request.h and
  xdp-utils.h, which are not among the sources. The spec gives a Request its identifier
  (the token handed to the client), the identity of the owning application and whether
  it is exported; these are the fields the file reads: \<open>id\<close>, \<open>app_info\<close>, \<open>exported\<close>.
\<close>

record Request =
  request_id :: string
  app_info :: XdpAppInfo
  exported :: bool

text \<open>A method invocation carries the caller and the request that was attached to it.\<close>

record GDBusMethodInvocation =
  sender :: string
  invocation_request :: Request

text \<open>The outcome of an asynchronous backend call: an error, or the \<open>u\<close> of the reply.\<close>

type_synonym GAsyncResult = "string + guint32"

datatype log_arg = ArgStr string | ArgUInt guint32

datatype effect =
    GetPermission string string string
  | SetPermission string string string Permission
  | Debug string "log_arg list"
  | Warning string "log_arg list"
  | TaskRunInThread string
  | CompleteGetIdletime string string
  | CallGetIdletime string string
  | Response string guint32 vardict
  | EmitSignal "string option" string string string "GVariant list"
  | SignalConnect string

record GDBusProxy =
  proxy_name :: string
  proxy_path :: string
  default_timeout :: gint

record IdleMonitor =
  version :: nat

text \<open>
  The state: the permission store, the two file-level globals \<open>impl\<close> and
  \<open>idle_monitor\<close> (\<open>None\<close> is NULL), the trace, and what the GLib runtime holds for the
  asynchronous code: the tasks handed to the thread pool that have not run yet, the
  requests whose backend call has not been answered yet, and the invocation whose handler
  is running on the main loop.
\<close>

record state =
  permissions :: permission_store
  impl :: "GDBusProxy option"
  idle_monitor :: "IdleMonitor option"
  trace :: "effect list"
  tasks :: "Request list"
  inflight :: "string list"
  handling :: "GDBusMethodInvocation option"

definition emit :: "effect \<Rightarrow> state \<Rightarrow> state" where
  "emit e s = s\<lparr>trace := trace s @ [e]\<rparr>"

definition g_debug :: "string \<Rightarrow> log_arg list \<Rightarrow> state \<Rightarrow> state" where
  "g_debug fmt args s = emit (Debug fmt args) s"

definition g_warning :: "string \<Rightarrow> log_arg list \<Rightarrow> state \<Rightarrow> state" where
  "g_warning fmt args s = emit (Warning fmt args) s"

text \<open>
  Modelled from the spec: \<open>get_permission_sync\<close> and \<open>set_permission_sync\<close> are defined in
  permissions.c, which is not among the sources. The spec's permission collaborator is
  \<open>Get(appId, table, id) -> {Yes, No, Unset}\<close> and \<open>Set(appId, table, id, value)\<close> on a
  durable key-value store: a read returns what is stored under the key, a write replaces it.
\<close>

definition get_permission_sync :: "string \<Rightarrow> string \<Rightarrow> string \<Rightarrow> state \<Rightarrow> Permission \<times> state" where
  "get_permission_sync app_id table ident s =
     (permissions s (app_id, table, ident), emit (GetPermission app_id table ident) s)"

definition set_permission_sync :: "string \<Rightarrow> string \<Rightarrow> string \<Rightarrow> Permission \<Rightarrow> state \<Rightarrow> state" where
  "set_permission_sync app_id table ident permission s =
     emit (SetPermission app_id table ident permission)
       (s\<lparr>permissions := (permissions s)((app_id, table, ident) := permission)\<rparr>)"

text \<open>
  Modelled from the spec: \<open>xdp_app_info_get_id\<close> (xdp-utils.c) and
  \<open>request_from_invocation\<close> (request.c) are not among the sources. The first resolves
  the caller's identity to its application id; the second gives the Request that belongs
  to the invocation.
\<close>

definition xdp_app_info_get_id :: "XdpAppInfo \<Rightarrow> string" where
  "xdp_app_info_get_id info = info_id info"

definition request_from_invocation :: "GDBusMethodInvocation \<Rightarrow> Request" where
  "request_from_invocation invocation = invocation_request invocation"

subsection \<open>The permission check\<close>

text \<open>\<open>get_idle_monitor_allowed\<close>, lines 60-78.\<close>

definition get_idle_monitor_allowed :: "string \<Rightarrow> state \<Rightarrow> bool \<times> state" where
  "get_idle_monitor_allowed app_id s =
     (let (permission, s) = get_permission_sync app_id PERMISSION_TABLE PERMISSION_ID s
      in if permission = PERMISSION_NO then (False, s)
         else if permission = PERMISSION_UNSET
         then (True,
               set_permission_sync app_id PERMISSION_TABLE PERMISSION_ID PERMISSION_YES
                 (g_debug ''No idle-mnoitor permissions stored for %s: allowing'' [ArgStr app_id] s))
         else (True, s))"

subsection \<open>GetIdletime\<close>

text \<open>
  Modelled from the spec: the D-Bus bindings (\<open>xdp_impl_idle_monitor_call_get_idletime\<close>
  and its \<open>_finish\<close>, \<open>xdp_request_emit_response\<close>,
  \<open>xdp_idle_monitor_complete_get_idletime\<close>) are generated at build time and are not
  among the sources. The spec's backend interface is the asynchronous
  \<open>GetIdleTime(requestToken, appId)\<close>, which yields a value or an error; its Request
  response event is \<open>Response(code: uint32, results: map<string,variant>)\<close>; its inbound
  call returns the request token.

  \<open>xdp_impl_idle_monitor_call_get_idletime_finish (impl, &response, result, &error)\<close>: on
  an error it returns FALSE, sets \<open>error\<close> and leaves \<open>response\<close> alone; on a reply it
  stores the reply's value in \<open>response\<close> and returns TRUE.
\<close>

definition xdp_impl_idle_monitor_call_get_idletime_finish ::
  "guint32 \<Rightarrow> GAsyncResult \<Rightarrow> bool \<times> guint32 \<times> string option" where
  "xdp_impl_idle_monitor_call_get_idletime_finish response result =
     (case result of
        Inl message \<Rightarrow> (False, response, Some message)
      | Inr v \<Rightarrow> (True, v, None))"

text \<open>\<open>xdp_request_emit_response\<close> sends the Response signal of the request's object.\<close>

definition xdp_request_emit_response :: "Request \<Rightarrow> guint32 \<Rightarrow> vardict \<Rightarrow> state \<Rightarrow> state" where
  "xdp_request_emit_response request response results s =
     emit (Response (request_id request) response results) s"

text \<open>
  \<open>get_idletime_done\<close>, lines 89-113: the callback of the backend call. The builder
  \<open>new_results\<close> is ended as it was initialised, so the results are the empty vardict.
\<close>

definition get_idletime_done :: "GAsyncResult \<Rightarrow> Request \<Rightarrow> state \<Rightarrow> state" where
  "get_idletime_done result request s =
     (let response = 0;
          (ok, response, error) = xdp_impl_idle_monitor_call_get_idletime_finish response result;
          response = (if \<not> ok then 2 else response)
      in if exported request
         then (let new_results = [] in xdp_request_emit_response request response new_results s)
         else s)"

text \<open>
  \<open>xdp_impl_idle_monitor_call_get_idletime (impl, request->id, app_id, NULL,
  get_idletime_done, request)\<close> sends the call and returns; the request joins those whose
  backend call is unanswered.
\<close>

definition xdp_impl_idle_monitor_call_get_idletime :: "Request \<Rightarrow> string \<Rightarrow> state \<Rightarrow> state" where
  "xdp_impl_idle_monitor_call_get_idletime request app_id s =
     emit (CallGetIdletime (request_id request) app_id)
       (s\<lparr>inflight := inflight s @ [request_id request]\<rparr>)"

text \<open>\<open>handle_get_idletime_in_thread_func\<close>, lines 115-138: the task's body.\<close>

definition handle_get_idletime_in_thread_func :: "Request \<Rightarrow> state \<Rightarrow> state" where
  "handle_get_idletime_in_thread_func request s =
     (let app_id = xdp_app_info_get_id (app_info request);
          (allowed, s) = get_idle_monitor_allowed app_id s
      in if \<not> allowed then s
         else xdp_impl_idle_monitor_call_get_idletime request app_id
                (g_debug ''Calling idle_monitor backend for %s'' [ArgStr app_id] s))"

text \<open>
  \<open>handle_get_idletime\<close>, lines 140-158, in its two halves: up to and including
  \<open>g_task_run_in_thread\<close> (the task is with the thread pool from here on), and the
  completion of the invocation with \<open>request->id\<close>.
\<close>

definition g_task_run_in_thread :: "Request \<Rightarrow> state \<Rightarrow> state" where
  "g_task_run_in_thread task_data s =
     emit (TaskRunInThread (request_id task_data)) (s\<lparr>tasks := tasks s @ [task_data]\<rparr>)"

definition xdp_idle_monitor_complete_get_idletime :: "GDBusMethodInvocation \<Rightarrow> string \<Rightarrow> state \<Rightarrow> state" where
  "xdp_idle_monitor_complete_get_idletime invocation handle s =
     emit (CompleteGetIdletime (sender invocation) handle) s"

definition handle_get_idletime_dispatch :: "GDBusMethodInvocation \<Rightarrow> state \<Rightarrow> state" where
  "handle_get_idletime_dispatch invocation s =
     (let request = request_from_invocation invocation
      in g_task_run_in_thread request s)"

definition handle_get_idletime_complete :: "GDBusMethodInvocation \<Rightarrow> state \<Rightarrow> bool \<times> state" where
  "handle_get_idletime_complete invocation s =
     (let request = request_from_invocation invocation
      in (True, xdp_idle_monitor_complete_get_idletime invocation (request_id request) s))"

definition handle_get_idletime :: "GDBusMethodInvocation \<Rightarrow> state \<Rightarrow> bool \<times> state" where
  "handle_get_idletime invocation s =
     handle_get_idletime_complete invocation (handle_get_idletime_dispatch invocation s)"

subsection \<open>The watch-fired signal\<close>

text \<open>
  \<open>g_dbus_connection_emit_signal (connection, destination_bus_name, object_path,
  interface_name, signal_name, parameters, NULL)\<close>; a NULL destination (\<open>None\<close>) sends the
  signal to every listener on the bus.
\<close>

definition g_dbus_connection_emit_signal ::
  "string option \<Rightarrow> string \<Rightarrow> string \<Rightarrow> string \<Rightarrow> GVariant list \<Rightarrow> state \<Rightarrow> state" where
  "g_dbus_connection_emit_signal destination_bus_name object_path interface_name signal_name parameters s =
     emit (EmitSignal destination_bus_name object_path interface_name signal_name parameters) s"

text \<open>\<open>watch_fired_cb\<close>, lines 177-202.\<close>

definition watch_fired_cb :: "string \<Rightarrow> vardict \<Rightarrow> state \<Rightarrow> state" where
  "watch_fired_cb session_id state_dict s =
     (let watch_id = 0;
          is_listening = True;
          (found, watch_id) = g_variant_lookup_u state_dict ''session-state'' watch_id;
          s = g_debug ''Received watch-fired %s: watch-id: %d'' [ArgStr session_id, ArgUInt watch_id] s
      in if is_listening
         then g_dbus_connection_emit_signal None
                ''/org/freedesktop/portal/desktop''
                ''org.freedesktop.portal.IdleMonitor''
                ''WatchFired''
                [VUInt32 watch_id] s
         else s)"

subsection \<open>Construction\<close>

text \<open>\<open>idle_monitor_init\<close>, lines 166-170, on the object \<open>g_object_new\<close> allocates.\<close>

definition idle_monitor_init :: "IdleMonitor \<Rightarrow> IdleMonitor" where
  "idle_monitor_init monitor = monitor\<lparr>version := 3\<rparr>"

text \<open>
  \<open>g_dbus_proxy_set_default_timeout\<close> on the global \<open>impl\<close>.
\<close>

definition g_dbus_proxy_set_default_timeout :: "gint \<Rightarrow> state \<Rightarrow> state" where
  "g_dbus_proxy_set_default_timeout timeout_msec s =
     s\<lparr>impl := map_option (\<lambda>proxy. proxy\<lparr>default_timeout := timeout_msec\<rparr>) (impl s)\<rparr>"

text \<open>
  \<open>idle_monitor_create\<close>, lines 204-228. Whether \<open>xdp_impl_idle_monitor_proxy_new_sync\<close>
  fails is the environment's choice: \<open>new_sync_error\<close> is its error message, if it does. A
  new proxy has GDBus's default timeout, -1.
\<close>

definition idle_monitor_create :: "string option \<Rightarrow> string \<Rightarrow> state \<Rightarrow> IdleMonitor option \<times> state" where
  "idle_monitor_create new_sync_error dbus_name s =
     (case new_sync_error of
        Some message \<Rightarrow>
          (None, g_warning ''Failed to create idle_monitor proxy: %s'' [ArgStr message] (s\<lparr>impl := None\<rparr>))
      | None \<Rightarrow>
          (let s = s\<lparr>impl := Some \<lparr>proxy_name = dbus_name,
                                   proxy_path = ''/org/freedesktop/portal/desktop'',
                                   default_timeout = - 1\<rparr>\<rparr>;
               s = g_dbus_proxy_set_default_timeout G_MAXINT s;
               s = s\<lparr>idle_monitor := Some (idle_monitor_init \<lparr>version = 0\<rparr>)\<rparr>;
               s = emit (SignalConnect ''watch-fired'') s
           in (idle_monitor s, s)))"

subsection \<open>The runtime around the handlers\<close>

text \<open>
  What GLib may do next, one action at a time. The main loop enters the handler of an
  invocation and runs it up to \<open>g_task_run_in_thread\<close> (\<open>Enter\<close>), and runs the rest of
  it (\<open>Leave\<close>); the handler takes no lock, so between the two the thread pool is free
  to run the task. A pool thread runs a queued task (\<open>Work\<close>). The backend's answer to
  an unanswered call arrives and its callback runs, once (\<open>Reply\<close>, with the request as
  it is at that moment: its \<open>exported\<close> flag is set and cleared outside this file). An
  action that is not possible gives \<open>None\<close>. When an answer arrives is left open.
\<close>

datatype action =
    Enter GDBusMethodInvocation
  | Leave
  | Work Request
  | Reply GAsyncResult Request

fun exec :: "action \<Rightarrow> state \<Rightarrow> state option" where
  "exec (Enter invocation) s =
     (case handling s of
        Some _ \<Rightarrow> None
      | None \<Rightarrow> Some ((handle_get_idletime_dispatch invocation s)\<lparr>handling := Some invocation\<rparr>))"
| "exec Leave s =
     (case handling s of
        None \<Rightarrow> None
      | Some invocation \<Rightarrow> Some (snd (handle_get_idletime_complete invocation (s\<lparr>handling := None\<rparr>))))"
| "exec (Work request) s =
     (if request \<in> set (tasks s)
      then Some (handle_get_idletime_in_thread_func request (s\<lparr>tasks := remove1 request (tasks s)\<rparr>))
      else None)"
| "exec (Reply result request) s =
     (if request_id request \<in> set (inflight s)
      then Some (get_idletime_done result request (s\<lparr>inflight := remove1 (request_id request) (inflight s)\<rparr>))
      else None)"

fun execs :: "action list \<Rightarrow> state \<Rightarrow> state option" where
  "execs [] s = Some s"
| "execs (a # as) s = (case exec a s of None \<Rightarrow> None | Some s' \<Rightarrow> execs as s')"

text \<open>A state before anything has happened: nothing stored, nothing logged, nothing queued.\<close>

definition initial_state :: state where
  "initial_state =
     \<lparr>permissions = (\<lambda>_. PERMISSION_UNSET), impl = None, idle_monitor = None, trace = [],
      tasks = [], inflight = [], handling = None\<rparr>"

subsection \<open>GDBus's call timeout\<close>

text \<open>
  The timeout GDBus arms for a call, in milliseconds, \<open>None\<close> when it arms none.
  \<open>g_dbus_proxy_call\<close> takes the proxy's default timeout when it is given -1;
  \<open>g_dbus_connection_call\<close> takes 25 seconds when that is still -1, and arms no timeout
  source when the value is \<open>G_MAXINT\<close>.
\<close>

definition g_dbus_call_timeout :: "gint \<Rightarrow> gint \<Rightarrow> nat option" where
  "g_dbus_call_timeout proxy_default timeout_msec =
     (let timeout_msec = (if timeout_msec = - 1 then proxy_default else timeout_msec);
          timeout_msec = (if timeout_msec = - 1 then 25000 else timeout_msec)
      in if timeout_msec = G_MAXINT then None else Some (nat (sint timeout_msec)))"

text \<open>
  The runtime with GDBus's own timeout. Besides the actions above (\<open>Run\<close>), GDBus may end
  an unanswered call itself, \<open>elapsed\<close> milliseconds after it was sent (\<open>Expire\<close>): when
  the call has a timeout and that much time has passed, the call's callback runs with
  the error \<open>Timeout was reached\<close>. The generated binding gives \<open>g_dbus_proxy_call\<close> the
  timeout -1, and the file passes it no cancellable (the NULL of line 135), so no other
  event ends a call. The default timeout is read from \<open>impl\<close> as it is: the file sets it
  in \<open>idle_monitor_create\<close> only.
\<close>

datatype gdbus_event =
    Run action
  | Expire Request nat

fun gdbus_exec :: "gdbus_event \<Rightarrow> state \<Rightarrow> state option" where
  "gdbus_exec (Run a) s = exec a s"
| "gdbus_exec (Expire request elapsed) s =
     (case impl s of
        None \<Rightarrow> None
      | Some proxy \<Rightarrow>
          (case g_dbus_call_timeout (default_timeout proxy) (- 1) of
             None \<Rightarrow> None
           | Some timeout \<Rightarrow>
               if timeout \<le> elapsed then exec (Reply (Inl ''Timeout was reached'') request) s
               else None))"

fun gdbus_execs :: "gdbus_event list \<Rightarrow> state \<Rightarrow> state option" where
  "gdbus_execs [] s = Some s"
| "gdbus_execs (ev # evs) s = (case gdbus_exec ev s of None \<Rightarrow> None | Some s' \<Rightarrow> gdbus_execs evs s')"

subsection \<open>Observations on traces and runs\<close>

text \<open>How many calls GDBus ends by a timeout, and how many answers of the backend to a
  request arrive, in a list of events.\<close>

fun expirations :: "gdbus_event list \<Rightarrow> nat" where
  "expirations [] = 0"
| "expirations (Expire _ _ # evs) = 1 + expirations evs"
| "expirations (_ # evs) = expirations evs"

fun answers_for :: "string \<Rightarrow> gdbus_event list \<Rightarrow> nat" where
  "answers_for rid [] = 0"
| "answers_for rid (Run (Reply _ request) # evs) =
     (if request_id request = rid then 1 else 0) + answers_for rid evs"
| "answers_for rid (_ # evs) = answers_for rid evs"

text \<open>The Response signals of a request, and the backend calls made for it, in a trace.\<close>

fun is_response_for :: "string \<Rightarrow> effect \<Rightarrow> bool" where
  "is_response_for rid (Response i _ _) = (i = rid)"
| "is_response_for rid _ = False"

fun is_backend_call_for :: "string \<Rightarrow> effect \<Rightarrow> bool" where
  "is_backend_call_for rid (CallGetIdletime i _) = (i = rid)"
| "is_backend_call_for rid _ = False"

definition responses_for :: "string \<Rightarrow> effect list \<Rightarrow> nat" where
  "responses_for rid tr = length (filter (is_response_for rid) tr)"

definition backend_calls_for :: "string \<Rightarrow> effect list \<Rightarrow> nat" where
  "backend_calls_for rid tr = length (filter (is_backend_call_for rid) tr)"

text \<open>The queued tasks and the unanswered backend calls of a request.\<close>

definition queued :: "string \<Rightarrow> Request list \<Rightarrow> nat" where
  "queued rid ts = length (filter (\<lambda>r. request_id r = rid) ts)"

definition unanswered :: "string \<Rightarrow> string list \<Rightarrow> nat" where
  "unanswered rid ids = length (filter (\<lambda>i. i = rid) ids)"

text \<open>How often the handler is entered for a request in a list of actions.\<close>

fun entered :: "string \<Rightarrow> action list \<Rightarrow> nat" where
  "entered rid [] = 0"
| "entered rid (Enter invocation # as) =
     (if request_id (request_from_invocation invocation) = rid then 1 else 0) + entered rid as"
| "entered rid (_ # as) = entered rid as"

text \<open>
  Whether, reading a trace from its start, the completion of the call is met before any
  access to the permission store and before any backend call.
\<close>

fun completed_first :: "effect list \<Rightarrow> bool" where
  "completed_first [] = True"
| "completed_first (CompleteGetIdletime _ _ # _) = True"
| "completed_first (GetPermission _ _ _ # _) = False"
| "completed_first (SetPermission _ _ _ _ # _) = False"
| "completed_first (CallGetIdletime _ _ # _) = False"
| "completed_first (_ # es) = completed_first es"

text \<open>
  Whether an effect is a Response with code 0 whose results hold an entry \<open>idleTime\<close>.
\<close>

fun reports_idle_time :: "effect \<Rightarrow> bool" where
  "reports_idle_time (Response _ code results) = (code = 0 \<and> map_of results ''idleTime'' \<noteq> None)"
| "reports_idle_time _ = False"

subsection \<open>Concrete inputs\<close>

definition request_A :: Request where
  "request_A =
     \<lparr>request_id = ''/org/freedesktop/portal/desktop/request/1_42/t1'',
      app_info = \<lparr>info_id = ''com.example.A''\<rparr>,
      exported = True\<rparr>"

definition invocation_A :: GDBusMethodInvocation where
  "invocation_A = \<lparr>sender = '':1.42'', invocation_request = request_A\<rparr>"

text \<open>A state in which the application of \<open>request_A\<close> has been refused.\<close>

definition refusing_state :: state where
  "refusing_state =
     initial_state\<lparr>permissions :=
       (permissions initial_state)((''com.example.A'', PERMISSION_TABLE, PERMISSION_ID) := PERMISSION_NO)\<rparr>"

text \<open>
  The state once \<open>request_A\<close> has gone through the handler and its task from the initial
  state, the backend call being unanswered; and the state after the answer 4200.
\<close>

definition calling_state :: state where
  "calling_state =
     \<lparr>permissions = (\<lambda>_. PERMISSION_UNSET)((''com.example.A'', PERMISSION_TABLE, PERMISSION_ID) := PERMISSION_YES),
      impl = None, idle_monitor = None,
      trace =
        [TaskRunInThread ''/org/freedesktop/portal/desktop/request/1_42/t1'',
         CompleteGetIdletime '':1.42'' ''/org/freedesktop/portal/desktop/request/1_42/t1'',
         GetPermission ''com.example.A'' PERMISSION_TABLE PERMISSION_ID,
         Debug ''No idle-mnoitor permissions stored for %s: allowing'' [ArgStr ''com.example.A''],
         SetPermission ''com.example.A'' PERMISSION_TABLE PERMISSION_ID PERMISSION_YES,
         Debug ''Calling idle_monitor backend for %s'' [ArgStr ''com.example.A''],
         CallGetIdletime ''/org/freedesktop/portal/desktop/request/1_42/t1'' ''com.example.A''],
      tasks = [], inflight = [''/org/freedesktop/portal/desktop/request/1_42/t1''], handling = None\<rparr>"

definition answered_state :: state where
  "answered_state =
     calling_state\<lparr>trace := trace calling_state @
                       [Response ''/org/freedesktop/portal/desktop/request/1_42/t1'' 4200 []],
                   inflight := []\<rparr>"

text \<open>
  The state when the task of \<open>request_A\<close> has run between the two halves of the handler.
\<close>

definition racing_state :: state where
  "racing_state =
     calling_state\<lparr>trace :=
       [TaskRunInThread ''/org/freedesktop/portal/desktop/request/1_42/t1'',
        GetPermission ''com.example.A'' PERMISSION_TABLE PERMISSION_ID,
        Debug ''No idle-mnoitor permissions stored for %s: allowing'' [ArgStr ''com.example.A''],
        SetPermission ''com.example.A'' PERMISSION_TABLE PERMISSION_ID PERMISSION_YES,
        Debug ''Calling idle_monitor backend for %s'' [ArgStr ''com.example.A''],
        CallGetIdletime ''/org/freedesktop/portal/desktop/request/1_42/t1'' ''com.example.A'',
        CompleteGetIdletime '':1.42'' ''/org/freedesktop/portal/desktop/request/1_42/t1'']\<rparr>"

text \<open>
  The initial state after the service has been constructed; that state once \<open>request_A\<close>
  has gone through the handler and its task; and a state like it but for a default
  timeout of 30 seconds.
\<close>

definition created_state :: state where
  "created_state = snd (idle_monitor_create None ''org.freedesktop.impl.portal.desktop.gnome'' initial_state)"

definition created_calling_state :: state where
  "created_calling_state =
     calling_state\<lparr>impl := impl created_state, idle_monitor := idle_monitor created_state,
                   trace := trace created_state @ trace calling_state\<rparr>"

definition impatient_calling_state :: state where
  "impatient_calling_state =
     created_calling_state\<lparr>impl :=
       map_option (\<lambda>proxy. proxy\<lparr>default_timeout := 30000\<rparr>) (impl created_calling_state)\<rparr>"

section \<open>Auxiliary facts\<close>

lemmas io_defs = emit_def g_debug_def g_warning_def get_permission_sync_def set_permission_sync_def
  xdp_app_info_get_id_def request_from_invocation_def xdp_request_emit_response_def
  xdp_impl_idle_monitor_call_get_idletime_def g_task_run_in_thread_def
  xdp_idle_monitor_complete_get_idletime_def g_dbus_connection_emit_signal_def

lemma allowed_unfold:
  "get_idle_monitor_allowed app_id s =
     (let s1 = emit (GetPermission app_id PERMISSION_TABLE PERMISSION_ID) s in
      case permissions s (app_id, PERMISSION_TABLE, PERMISSION_ID) of
        PERMISSION_NO \<Rightarrow> (False, s1)
      | PERMISSION_YES \<Rightarrow> (True, s1)
      | PERMISSION_UNSET \<Rightarrow>
          (True, set_permission_sync app_id PERMISSION_TABLE PERMISSION_ID PERMISSION_YES
             (g_debug ''No idle-mnoitor permissions stored for %s: allowing'' [ArgStr app_id] s1)))"
  by (simp add: get_idle_monitor_allowed_def get_permission_sync_def Let_def split: Permission.splits)

lemma thread_func_denied:
  "permissions s (xdp_app_info_get_id (app_info request), PERMISSION_TABLE, PERMISSION_ID) = PERMISSION_NO \<Longrightarrow>
   handle_get_idletime_in_thread_func request s =
     emit (GetPermission (xdp_app_info_get_id (app_info request)) PERMISSION_TABLE PERMISSION_ID) s"
  by (simp add: handle_get_idletime_in_thread_func_def allowed_unfold Let_def)

lemma thread_func_yes:
  "permissions s (xdp_app_info_get_id (app_info request), PERMISSION_TABLE, PERMISSION_ID) = PERMISSION_YES \<Longrightarrow>
   handle_get_idletime_in_thread_func request s =
     xdp_impl_idle_monitor_call_get_idletime request (xdp_app_info_get_id (app_info request))
       (g_debug ''Calling idle_monitor backend for %s'' [ArgStr (xdp_app_info_get_id (app_info request))]
         (emit (GetPermission (xdp_app_info_get_id (app_info request)) PERMISSION_TABLE PERMISSION_ID) s))"
  by (simp add: handle_get_idletime_in_thread_func_def allowed_unfold Let_def)

lemma thread_func_unset:
  "permissions s (xdp_app_info_get_id (app_info request), PERMISSION_TABLE, PERMISSION_ID) = PERMISSION_UNSET \<Longrightarrow>
   handle_get_idletime_in_thread_func request s =
     xdp_impl_idle_monitor_call_get_idletime request (xdp_app_info_get_id (app_info request))
       (g_debug ''Calling idle_monitor backend for %s'' [ArgStr (xdp_app_info_get_id (app_info request))]
         (set_permission_sync (xdp_app_info_get_id (app_info request)) PERMISSION_TABLE PERMISSION_ID PERMISSION_YES
           (g_debug ''No idle-mnoitor permissions stored for %s: allowing'' [ArgStr (xdp_app_info_get_id (app_info request))]
             (emit (GetPermission (xdp_app_info_get_id (app_info request)) PERMISSION_TABLE PERMISSION_ID) s))))"
  by (simp add: handle_get_idletime_in_thread_func_def allowed_unfold Let_def)

lemmas thread_func_cases = thread_func_denied thread_func_yes thread_func_unset

lemma thread_func_tasks [simp]: "tasks (handle_get_idletime_in_thread_func request s) = tasks s"
  by (cases "permissions s (xdp_app_info_get_id (app_info request), PERMISSION_TABLE, PERMISSION_ID)")
     (simp_all add: thread_func_cases io_defs)

lemma thread_func_handling [simp]: "handling (handle_get_idletime_in_thread_func request s) = handling s"
  by (cases "permissions s (xdp_app_info_get_id (app_info request), PERMISSION_TABLE, PERMISSION_ID)")
     (simp_all add: thread_func_cases io_defs)

lemma thread_func_inflight:
  "inflight (handle_get_idletime_in_thread_func request s) =
     inflight s @
       (if permissions s (xdp_app_info_get_id (app_info request), PERMISSION_TABLE, PERMISSION_ID) = PERMISSION_NO
        then [] else [request_id request])"
  by (cases "permissions s (xdp_app_info_get_id (app_info request), PERMISSION_TABLE, PERMISSION_ID)")
     (simp_all add: thread_func_cases io_defs)

lemma thread_func_responses [simp]:
  "responses_for rid (trace (handle_get_idletime_in_thread_func request s)) = responses_for rid (trace s)"
  by (cases "permissions s (xdp_app_info_get_id (app_info request), PERMISSION_TABLE, PERMISSION_ID)")
     (simp_all add: thread_func_cases io_defs responses_for_def)

lemma thread_func_backend_calls:
  "backend_calls_for rid (trace (handle_get_idletime_in_thread_func request s)) =
     backend_calls_for rid (trace s) +
       (if permissions s (xdp_app_info_get_id (app_info request), PERMISSION_TABLE, PERMISSION_ID) \<noteq> PERMISSION_NO
           \<and> request_id request = rid
        then 1 else 0)"
  by (cases "permissions s (xdp_app_info_get_id (app_info request), PERMISSION_TABLE, PERMISSION_ID)")
     (simp_all add: thread_func_cases io_defs backend_calls_for_def)

lemma done_unfold:
  "get_idletime_done result request s =
     (if exported request
      then emit (Response (request_id request) (case result of Inl _ \<Rightarrow> 2 | Inr v \<Rightarrow> v) []) s
      else s)"
  by (simp add: get_idletime_done_def xdp_impl_idle_monitor_call_get_idletime_finish_def
        xdp_request_emit_response_def Let_def split: sum.splits)

lemma done_fields [simp]:
  "tasks (get_idletime_done result request s) = tasks s"
  "inflight (get_idletime_done result request s) = inflight s"
  "handling (get_idletime_done result request s) = handling s"
  "permissions (get_idletime_done result request s) = permissions s"
  by (simp_all add: done_unfold emit_def)

lemma done_responses:
  "responses_for rid (trace (get_idletime_done result request s)) =
     responses_for rid (trace s) + (if exported request \<and> request_id request = rid then 1 else 0)"
  by (simp add: done_unfold emit_def responses_for_def)

lemma done_backend_calls [simp]:
  "backend_calls_for rid (trace (get_idletime_done result request s)) = backend_calls_for rid (trace s)"
  by (simp add: done_unfold emit_def backend_calls_for_def)

lemma length_filter_pos: "x \<in> set xs \<Longrightarrow> P x \<Longrightarrow> 0 < length (filter P xs)"
  by (induction xs) auto

lemma length_filter_remove1:
  "length (filter P (remove1 x xs)) =
     (if x \<in> set xs \<and> P x then length (filter P xs) - 1 else length (filter P xs))"
proof (induction xs)
  case Nil
  then show ?case by simp
next
  case (Cons a xs)
  show ?case
  proof (cases "x = a")
    case True
    then show ?thesis by simp
  next
    case False
    with Cons length_filter_pos [of x xs P] show ?thesis by auto
  qed
qed

lemma responses_snoc:
  "responses_for rid (tr @ [e]) = responses_for rid tr + (if is_response_for rid e then 1 else 0)"
  by (simp add: responses_for_def)

lemma dispatch_responses [simp]:
  "responses_for rid (trace (handle_get_idletime_dispatch invocation s)) = responses_for rid (trace s)"
  by (simp add: handle_get_idletime_dispatch_def io_defs responses_snoc Let_def)

lemma complete_responses [simp]:
  "responses_for rid (trace (snd (handle_get_idletime_complete invocation s))) = responses_for rid (trace s)"
  by (simp add: handle_get_idletime_complete_def io_defs responses_snoc Let_def)

lemma exec_responses:
  "exec a s = Some s' \<Longrightarrow>
   responses_for rid (trace s') =
     responses_for rid (trace s) +
       (case a of Reply result request \<Rightarrow> if exported request \<and> request_id request = rid then 1 else 0
        | _ \<Rightarrow> 0)"
proof (cases a)
  case (Enter invocation)
  assume "exec a s = Some s'"
  with Enter show ?thesis by (auto split: option.splits)
next
  case Leave
  assume "exec a s = Some s'"
  with Leave show ?thesis by (auto split: option.splits)
next
  case (Work request)
  assume "exec a s = Some s'"
  with Work show ?thesis by (auto split: if_splits)
next
  case (Reply result request)
  assume "exec a s = Some s'"
  with Reply show ?thesis by (auto simp: done_responses split: if_splits)
qed

lemma exec_budget:
  "exec a s = Some s' \<Longrightarrow>
   responses_for rid (trace s') + unanswered rid (inflight s') + queued rid (tasks s')
     \<le> responses_for rid (trace s) + unanswered rid (inflight s) + queued rid (tasks s) + entered rid [a]"
proof (cases a)
  case (Enter invocation)
  assume "exec a s = Some s'"
  with Enter show ?thesis
    by (auto simp: handle_get_idletime_dispatch_def io_defs responses_for_def queued_def
          Let_def split: option.splits)
next
  case Leave
  assume "exec a s = Some s'"
  with Leave show ?thesis
    by (auto simp: handle_get_idletime_complete_def io_defs responses_for_def Let_def
          split: option.splits)
next
  case (Work request)
  assume "exec a s = Some s'"
  with Work have mem: "request \<in> set (tasks s)"
    and s': "s' = handle_get_idletime_in_thread_func request (s\<lparr>tasks := remove1 request (tasks s)\<rparr>)"
    by (auto split: if_splits)
  show ?thesis
  proof (cases "request_id request = rid")
    case True
    with mem have "0 < queued rid (tasks s)"
      unfolding queued_def by (intro length_filter_pos)
    with True mem Work s' show ?thesis
      by (simp add: thread_func_inflight unanswered_def queued_def length_filter_remove1)
  next
    case False
    with mem Work s' show ?thesis
      by (simp add: thread_func_inflight unanswered_def queued_def length_filter_remove1)
  qed
next
  case (Reply result request)
  assume "exec a s = Some s'"
  with Reply have mem: "request_id request \<in> set (inflight s)"
    and s': "s' = get_idletime_done result request (s\<lparr>inflight := remove1 (request_id request) (inflight s)\<rparr>)"
    by (auto split: if_splits)
  show ?thesis
  proof (cases "request_id request = rid")
    case True
    with mem have "0 < unanswered rid (inflight s)"
      unfolding unanswered_def by (intro length_filter_pos) simp_all
    with True mem Reply s' show ?thesis
      by (simp add: done_responses unanswered_def length_filter_remove1)
  next
    case False
    with mem Reply s' show ?thesis
      by (simp add: done_responses unanswered_def length_filter_remove1)
  qed
qed

lemma execs_budget:
  "execs as s = Some s' \<Longrightarrow>
   responses_for rid (trace s') + unanswered rid (inflight s') + queued rid (tasks s')
     \<le> responses_for rid (trace s) + unanswered rid (inflight s) + queued rid (tasks s) + entered rid as"
proof (induction as arbitrary: s)
  case Nil
  then show ?case by simp
next
  case (Cons a as)
  from Cons.prems obtain s1 where step: "exec a s = Some s1" and rest: "execs as s1 = Some s'"
    by (auto split: option.splits)
  have e: "entered rid (a # as) = entered rid [a] + entered rid as"
    by (cases a) simp_all
  from exec_budget [OF step, of rid] Cons.IH [OF rest] e show ?case
    by linarith
qed


lemma backend_calls_snoc:
  "backend_calls_for rid (tr @ [e]) = backend_calls_for rid tr + (if is_backend_call_for rid e then 1 else 0)"
  by (simp add: backend_calls_for_def)

lemma dispatch_backend_calls [simp]:
  "backend_calls_for rid (trace (handle_get_idletime_dispatch invocation s)) = backend_calls_for rid (trace s)"
  by (simp add: handle_get_idletime_dispatch_def io_defs backend_calls_snoc Let_def)

lemma complete_backend_calls [simp]:
  "backend_calls_for rid (trace (snd (handle_get_idletime_complete invocation s))) = backend_calls_for rid (trace s)"
  by (simp add: handle_get_idletime_complete_def io_defs backend_calls_snoc Let_def)

lemma dispatch_tasks:
  "tasks (handle_get_idletime_dispatch invocation s) = tasks s @ [request_from_invocation invocation]"
  by (simp add: handle_get_idletime_dispatch_def io_defs Let_def)

lemma complete_tasks [simp]:
  "tasks (snd (handle_get_idletime_complete invocation s)) = tasks s"
  by (simp add: handle_get_idletime_complete_def io_defs Let_def)

lemma exec_backend_calls_budget:
  "exec a s = Some s' \<Longrightarrow>
   backend_calls_for rid (trace s') + queued rid (tasks s')
     \<le> backend_calls_for rid (trace s) + queued rid (tasks s) + entered rid [a]"
proof (cases a)
  case (Enter invocation)
  assume "exec a s = Some s'"
  with Enter show ?thesis
    by (auto simp: dispatch_tasks queued_def request_from_invocation_def split: option.splits)
next
  case Leave
  assume "exec a s = Some s'"
  with Leave show ?thesis
    by (auto split: option.splits)
next
  case (Work request)
  assume "exec a s = Some s'"
  with Work have mem: "request \<in> set (tasks s)"
    and s': "s' = handle_get_idletime_in_thread_func request (s\<lparr>tasks := remove1 request (tasks s)\<rparr>)"
    by (auto split: if_splits)
  show ?thesis
  proof (cases "request_id request = rid")
    case True
    with mem have "0 < queued rid (tasks s)"
      unfolding queued_def by (intro length_filter_pos)
    with True mem Work s' show ?thesis
      by (simp add: thread_func_backend_calls queued_def length_filter_remove1)
  next
    case False
    with mem Work s' show ?thesis
      by (simp add: thread_func_backend_calls queued_def length_filter_remove1)
  qed
next
  case (Reply result request)
  assume "exec a s = Some s'"
  with Reply show ?thesis
    by (auto split: if_splits)
qed

lemma execs_backend_calls_budget:
  "execs as s = Some s' \<Longrightarrow>
   backend_calls_for rid (trace s') + queued rid (tasks s')
     \<le> backend_calls_for rid (trace s) + queued rid (tasks s) + entered rid as"
proof (induction as arbitrary: s)
  case Nil
  then show ?case by simp
next
  case (Cons a as)
  from Cons.prems obtain s1 where step: "exec a s = Some s1" and rest: "execs as s1 = Some s'"
    by (auto split: option.splits)
  have e: "entered rid (a # as) = entered rid [a] + entered rid as"
    by (cases a) simp_all
  from exec_backend_calls_budget [OF step, of rid] Cons.IH [OF rest] e show ?case
    by linarith
qed

lemma exec_backend_calls_mono:
  "exec a s = Some s' \<Longrightarrow> backend_calls_for rid (trace s) \<le> backend_calls_for rid (trace s')"
  by (cases a) (auto simp: thread_func_backend_calls split: option.splits if_splits)

lemma execs_backend_calls_mono:
  "execs as s = Some s' \<Longrightarrow> backend_calls_for rid (trace s) \<le> backend_calls_for rid (trace s')"
proof (induction as arbitrary: s)
  case Nil
  then show ?case by simp
next
  case (Cons a as)
  from Cons.prems obtain s1 where step: "exec a s = Some s1" and rest: "execs as s1 = Some s'"
    by (auto split: option.splits)
  from exec_backend_calls_mono [OF step, of rid] Cons.IH [OF rest] show ?case
    by linarith
qed

lemma execs_responses_mono:
  "execs as s = Some s' \<Longrightarrow> responses_for rid (trace s) \<le> responses_for rid (trace s')"
proof (induction as arbitrary: s)
  case Nil
  then show ?case by simp
next
  case (Cons a as)
  from Cons.prems obtain s1 where step: "exec a s = Some s1" and rest: "execs as s1 = Some s'"
    by (auto split: option.splits)
  from exec_responses [OF step, of rid] Cons.IH [OF rest] show ?case
    by linarith
qed

lemmas fixture_defs = initial_state_def refusing_state_def request_A_def invocation_A_def
  calling_state_def answered_state_def racing_state_def

section \<open>The permission check\<close>

text \<open>
  C3. For every application id the check denies exactly when the stored permission is
  \<open>PERMISSION_NO\<close>. With \<open>PERMISSION_YES\<close> stored it allows, and only reads the store. With
  \<open>PERMISSION_UNSET\<close> stored it allows and stores \<open>PERMISSION_YES\<close>, and a second check
  of the same application on the resulting state does what a check on a stored
  \<open>PERMISSION_YES\<close> does: it allows and only reads the store, so the branch for
  \<open>PERMISSION_UNSET\<close>, which logs and writes, is not taken again.
\<close>

theorem get_idle_monitor_allowed_policy:
  "((\<not> fst (get_idle_monitor_allowed app_id s)) =
      (permissions s (app_id, PERMISSION_TABLE, PERMISSION_ID) = PERMISSION_NO))
   \<and> (permissions s (app_id, PERMISSION_TABLE, PERMISSION_ID) = PERMISSION_YES \<longrightarrow>
        get_idle_monitor_allowed app_id s =
          (True, emit (GetPermission app_id PERMISSION_TABLE PERMISSION_ID) s))
   \<and> (permissions s (app_id, PERMISSION_TABLE, PERMISSION_ID) = PERMISSION_UNSET \<longrightarrow>
        (let (allowed, s') = get_idle_monitor_allowed app_id s
         in allowed
            \<and> permissions s' = (permissions s)((app_id, PERMISSION_TABLE, PERMISSION_ID) := PERMISSION_YES)
            \<and> get_idle_monitor_allowed app_id s' =
                (True, emit (GetPermission app_id PERMISSION_TABLE PERMISSION_ID) s')))"
  by (simp add: allowed_unfold io_defs Let_def split: Permission.splits)

theorem get_idle_monitor_allowed_policy_witness:
  "permissions initial_state (''com.example.A'', PERMISSION_TABLE, PERMISSION_ID) = PERMISSION_UNSET
   \<and> fst (get_idle_monitor_allowed ''com.example.A'' initial_state)
   \<and> permissions (snd (get_idle_monitor_allowed ''com.example.A'' initial_state))
        (''com.example.A'', PERMISSION_TABLE, PERMISSION_ID) = PERMISSION_YES
   \<and> get_idle_monitor_allowed ''com.example.A'' (snd (get_idle_monitor_allowed ''com.example.A'' initial_state)) =
        (True, emit (GetPermission ''com.example.A'' PERMISSION_TABLE PERMISSION_ID)
                 (snd (get_idle_monitor_allowed ''com.example.A'' initial_state)))
   \<and> permissions refusing_state (''com.example.A'', PERMISSION_TABLE, PERMISSION_ID) = PERMISSION_NO
   \<and> \<not> fst (get_idle_monitor_allowed ''com.example.A'' refusing_state)"
proof -
  have unset: "permissions initial_state (''com.example.A'', PERMISSION_TABLE, PERMISSION_ID) = PERMISSION_UNSET"
    by (simp add: initial_state_def)
  have no: "permissions refusing_state (''com.example.A'', PERMISSION_TABLE, PERMISSION_ID) = PERMISSION_NO"
    by (simp add: fixture_defs)
  from get_idle_monitor_allowed_policy [of "''com.example.A''" initial_state] unset
  have first: "fst (get_idle_monitor_allowed ''com.example.A'' initial_state)"
    by simp
  from get_idle_monitor_allowed_policy [of "''com.example.A''" initial_state] unset
  have upgraded: "permissions (snd (get_idle_monitor_allowed ''com.example.A'' initial_state))
        (''com.example.A'', PERMISSION_TABLE, PERMISSION_ID) = PERMISSION_YES"
    by (simp add: Let_def split: prod.splits)
  from get_idle_monitor_allowed_policy
         [of "''com.example.A''" "snd (get_idle_monitor_allowed ''com.example.A'' initial_state)"] upgraded
  have second: "get_idle_monitor_allowed ''com.example.A'' (snd (get_idle_monitor_allowed ''com.example.A'' initial_state)) =
        (True, emit (GetPermission ''com.example.A'' PERMISSION_TABLE PERMISSION_ID)
                 (snd (get_idle_monitor_allowed ''com.example.A'' initial_state)))"
    by simp
  from get_idle_monitor_allowed_policy [of "''com.example.A''" refusing_state] no
  have denied: "\<not> fst (get_idle_monitor_allowed ''com.example.A'' refusing_state)"
    by simp
  from unset first upgraded second no denied show ?thesis by simp
qed

section \<open>A denied call\<close>

text \<open>
  C4. When the stored permission of the caller's application is \<open>PERMISSION_NO\<close>, the
  task's body only reads the permission store and returns: it makes no backend call,
  registers no callback and emits nothing. In every continuation of the run in which the
  handler is not entered again for the request, the number of backend calls for the
  request and the number of its Response signals stay what they were.
\<close>

theorem denied_call_is_dropped:
  assumes no: "permissions s (xdp_app_info_get_id (app_info request), PERMISSION_TABLE, PERMISSION_ID) = PERMISSION_NO"
  shows "handle_get_idletime_in_thread_func request s =
           emit (GetPermission (xdp_app_info_get_id (app_info request)) PERMISSION_TABLE PERMISSION_ID) s
         \<and> (execs (Work request # as) s = Some s'
              \<and> queued (request_id request) (tasks s) = 1
              \<and> unanswered (request_id request) (inflight s) = 0
              \<and> entered (request_id request) as = 0 \<longrightarrow>
            backend_calls_for (request_id request) (trace s') = backend_calls_for (request_id request) (trace s)
            \<and> responses_for (request_id request) (trace s') = responses_for (request_id request) (trace s))"
proof (intro conjI impI)
  show "handle_get_idletime_in_thread_func request s =
          emit (GetPermission (xdp_app_info_get_id (app_info request)) PERMISSION_TABLE PERMISSION_ID) s"
    using no by (rule thread_func_denied)
next
  assume run: "execs (Work request # as) s = Some s'
     \<and> queued (request_id request) (tasks s) = 1
     \<and> unanswered (request_id request) (inflight s) = 0
     \<and> entered (request_id request) as = 0"
  let ?rid = "request_id request"
  let ?s0 = "s\<lparr>tasks := remove1 request (tasks s)\<rparr>"
  let ?s1 = "handle_get_idletime_in_thread_func request ?s0"
  from run have mem: "request \<in> set (tasks s)" and rest: "execs as ?s1 = Some s'"
    by (auto split: if_splits)
  from no have no0: "permissions ?s0 (xdp_app_info_get_id (app_info request), PERMISSION_TABLE, PERMISSION_ID) = PERMISSION_NO"
    by simp
  from run mem have q1: "queued ?rid (tasks ?s1) = 0"
    by (simp add: queued_def length_filter_remove1)
  from run no0 have u1: "unanswered ?rid (inflight ?s1) = 0"
    by (simp add: thread_func_inflight)
  from no0 have b1: "backend_calls_for ?rid (trace ?s1) = backend_calls_for ?rid (trace s)"
    by (simp add: thread_func_backend_calls)
  have r1: "responses_for ?rid (trace ?s1) = responses_for ?rid (trace s)"
    by simp
  from run have e: "entered ?rid as = 0" by simp
  from execs_backend_calls_budget [OF rest, of ?rid] execs_backend_calls_mono [OF rest, of ?rid] q1 b1 e
  show "backend_calls_for ?rid (trace s') = backend_calls_for ?rid (trace s)"
    by linarith
  from execs_budget [OF rest, of ?rid] execs_responses_mono [OF rest, of ?rid] q1 u1 r1 e
  show "responses_for ?rid (trace s') = responses_for ?rid (trace s)"
    by linarith
qed

theorem denied_call_is_dropped_witness:
  "permissions (refusing_state\<lparr>tasks := [request_A]\<rparr>)
     (xdp_app_info_get_id (app_info request_A), PERMISSION_TABLE, PERMISSION_ID) = PERMISSION_NO
   \<and> execs [Work request_A] (refusing_state\<lparr>tasks := [request_A]\<rparr>) =
       Some (emit (GetPermission ''com.example.A'' PERMISSION_TABLE PERMISSION_ID) refusing_state)
   \<and> queued (request_id request_A) (tasks (refusing_state\<lparr>tasks := [request_A]\<rparr>)) = 1
   \<and> backend_calls_for (request_id request_A)
       (trace (emit (GetPermission ''com.example.A'' PERMISSION_TABLE PERMISSION_ID) refusing_state)) = 0
   \<and> responses_for (request_id request_A)
       (trace (emit (GetPermission ''com.example.A'' PERMISSION_TABLE PERMISSION_ID) refusing_state)) = 0"
proof -
  have no: "permissions (refusing_state\<lparr>tasks := [request_A]\<rparr>)
     (xdp_app_info_get_id (app_info request_A), PERMISSION_TABLE, PERMISSION_ID) = PERMISSION_NO"
    by (simp add: fixture_defs xdp_app_info_get_id_def)
  have run: "execs [Work request_A] (refusing_state\<lparr>tasks := [request_A]\<rparr>) =
       Some (emit (GetPermission ''com.example.A'' PERMISSION_TABLE PERMISSION_ID) refusing_state)"
    by (simp add: fixture_defs handle_get_idletime_in_thread_func_def allowed_unfold io_defs Let_def)
  have start: "queued (request_id request_A) (tasks (refusing_state\<lparr>tasks := [request_A]\<rparr>)) = 1
     \<and> unanswered (request_id request_A) (inflight (refusing_state\<lparr>tasks := [request_A]\<rparr>)) = 0
     \<and> backend_calls_for (request_id request_A) (trace (refusing_state\<lparr>tasks := [request_A]\<rparr>)) = 0
     \<and> responses_for (request_id request_A) (trace (refusing_state\<lparr>tasks := [request_A]\<rparr>)) = 0"
    by (simp add: fixture_defs queued_def unanswered_def backend_calls_for_def responses_for_def)
  from denied_call_is_dropped [OF no, of "[]"
         "emit (GetPermission ''com.example.A'' PERMISSION_TABLE PERMISSION_ID) refusing_state"]
       run start
  have "backend_calls_for (request_id request_A)
          (trace (emit (GetPermission ''com.example.A'' PERMISSION_TABLE PERMISSION_ID) refusing_state)) = 0
        \<and> responses_for (request_id request_A)
          (trace (emit (GetPermission ''com.example.A'' PERMISSION_TABLE PERMISSION_ID) refusing_state)) = 0"
    by simp
  with no run start show ?thesis by simp
qed

section \<open>The watch-fired signal\<close>

lemma watch_fired_cb_unfold:
  "watch_fired_cb session_id state_dict s =
     emit (EmitSignal None ''/org/freedesktop/portal/desktop'' ''org.freedesktop.portal.IdleMonitor''
             ''WatchFired'' [VUInt32 (snd (g_variant_lookup_u state_dict ''session-state'' 0))])
       (emit (Debug ''Received watch-fired %s: watch-id: %d''
                [ArgStr session_id, ArgUInt (snd (g_variant_lookup_u state_dict ''session-state'' 0))]) s)"
  by (simp add: watch_fired_cb_def g_dbus_connection_emit_signal_def g_debug_def Let_def split: prod.splits)

lemma lookup_u_missing:
  "\<forall>w. map_of state_dict key \<noteq> Some (VUInt32 w) \<Longrightarrow> g_variant_lookup_u state_dict key out = (False, out)"
  by (auto simp: g_variant_lookup_u_def split: option.splits GVariant.splits)

text \<open>
  C1. The WatchFired signal of a watch is to go only to the client that owns the watch,
  never to the whole bus. For every event that carries a watch id, in every state, the
  callback emits the signal with the NULL destination, that is to every listener on the
  bus; so it does for watch id 7 in the initial state. The file keeps no record of who
  owns a watch; its comments at lines 192 and 196 ask for one.
\<close>

theorem watch_fired_is_broadcast:
  "watch_fired_cb session_id ((''session-state'', VUInt32 w) # rest) s =
     s\<lparr>trace := trace s @
       [Debug ''Received watch-fired %s: watch-id: %d'' [ArgStr session_id, ArgUInt w],
        EmitSignal None ''/org/freedesktop/portal/desktop'' ''org.freedesktop.portal.IdleMonitor''
          ''WatchFired'' [VUInt32 w]]\<rparr>
   \<and> watch_fired_cb ''session-1'' [(''session-state'', VUInt32 7)] initial_state =
       initial_state\<lparr>trace :=
         [Debug ''Received watch-fired %s: watch-id: %d'' [ArgStr ''session-1'', ArgUInt 7],
          EmitSignal None ''/org/freedesktop/portal/desktop'' ''org.freedesktop.portal.IdleMonitor''
            ''WatchFired'' [VUInt32 7]]\<rparr>"
  by (simp add: watch_fired_cb_unfold g_variant_lookup_u_def emit_def initial_state_def)

text \<open>
  C7. An event whose watch id has no registered owner is to be dropped, with no signal
  to any client. The callback emits the signal for every event, whatever its watch id
  and whatever the state: \<open>is_listening\<close> is the constant TRUE. So it does for watch id
  99 in the initial state, in which no client has registered anything.
\<close>

theorem watch_fired_never_dropped:
  "watch_fired_cb session_id state_dict s =
     s\<lparr>trace := trace s @
       [Debug ''Received watch-fired %s: watch-id: %d''
          [ArgStr session_id, ArgUInt (snd (g_variant_lookup_u state_dict ''session-state'' 0))],
        EmitSignal None ''/org/freedesktop/portal/desktop'' ''org.freedesktop.portal.IdleMonitor''
          ''WatchFired'' [VUInt32 (snd (g_variant_lookup_u state_dict ''session-state'' 0))]]\<rparr>
   \<and> trace (watch_fired_cb ''session-1'' [(''session-state'', VUInt32 99)] initial_state) =
       [Debug ''Received watch-fired %s: watch-id: %d'' [ArgStr ''session-1'', ArgUInt 99],
        EmitSignal None ''/org/freedesktop/portal/desktop'' ''org.freedesktop.portal.IdleMonitor''
          ''WatchFired'' [VUInt32 99]]"
  by (simp add: watch_fired_cb_unfold g_variant_lookup_u_def emit_def initial_state_def)

text \<open>
  C10. When the state dictionary of a watch-fired event has no entry
  \<open>session-state\<close> of type \<open>u\<close> (no entry with the key, or one of another type), the
  watch id stays at its initial value 0 and the callback still emits the WatchFired
  signal, with watch id 0.
\<close>

theorem watch_fired_without_watch_id:
  assumes "\<forall>w. map_of state_dict ''session-state'' \<noteq> Some (VUInt32 w)"
  shows "watch_fired_cb session_id state_dict s =
     s\<lparr>trace := trace s @
       [Debug ''Received watch-fired %s: watch-id: %d'' [ArgStr session_id, ArgUInt 0],
        EmitSignal None ''/org/freedesktop/portal/desktop'' ''org.freedesktop.portal.IdleMonitor''
          ''WatchFired'' [VUInt32 0]]\<rparr>"
  using assms by (simp add: watch_fired_cb_unfold lookup_u_missing emit_def)

theorem watch_fired_without_watch_id_witness:
  "(\<forall>w. map_of [(''other-key'', VUInt32 5)] ''session-state'' \<noteq> Some (VUInt32 w))
   \<and> watch_fired_cb ''session-1'' [(''other-key'', VUInt32 5)] initial_state =
       initial_state\<lparr>trace :=
         [Debug ''Received watch-fired %s: watch-id: %d'' [ArgStr ''session-1'', ArgUInt 0],
          EmitSignal None ''/org/freedesktop/portal/desktop'' ''org.freedesktop.portal.IdleMonitor''
            ''WatchFired'' [VUInt32 0]]\<rparr>
   \<and> (\<forall>w. map_of [(''session-state'', VString ''idle'')] ''session-state'' \<noteq> Some (VUInt32 w))
   \<and> watch_fired_cb ''session-1'' [(''session-state'', VString ''idle'')] initial_state =
       initial_state\<lparr>trace :=
         [Debug ''Received watch-fired %s: watch-id: %d'' [ArgStr ''session-1'', ArgUInt 0],
          EmitSignal None ''/org/freedesktop/portal/desktop'' ''org.freedesktop.portal.IdleMonitor''
            ''WatchFired'' [VUInt32 0]]\<rparr>"
proof -
  have missing: "\<forall>w. map_of [(''other-key'', VUInt32 5)] ''session-state'' \<noteq> Some (VUInt32 w)"
    by simp
  have mistyped: "\<forall>w. map_of [(''session-state'', VString ''idle'')] ''session-state'' \<noteq> Some (VUInt32 w)"
    by simp
  from watch_fired_without_watch_id [OF missing, of "''session-1''" initial_state]
       watch_fired_without_watch_id [OF mistyped, of "''session-1''" initial_state]
       missing mistyped
  show ?thesis by (simp add: initial_state_def)
qed

section \<open>The answer to a call\<close>

lemmas run_defs = fixture_defs handle_get_idletime_dispatch_def handle_get_idletime_complete_def
  handle_get_idletime_in_thread_func_def allowed_unfold done_unfold io_defs Let_def

lemma calling_run:
  "execs [Enter invocation_A, Leave, Work request_A] initial_state = Some calling_state"
  by (simp add: run_defs)

lemma answering_step:
  "exec (Reply (Inr 4200) request_A) calling_state = Some answered_state"
  by (simp add: run_defs)

lemma permitted_run:
  "execs [Enter invocation_A, Leave, Work request_A, Reply (Inr 4200) request_A] initial_state =
     Some answered_state"
  by (simp add: run_defs)

text \<open>
  C2. The callback of the backend call emits nothing when the request is not exported.
  In a step of the runtime the number of Response signals of a request grows only when
  the answer to a backend call arrives for it and it is exported, and then by one. In
  every run that starts where the request is unknown (no Response, no unanswered call, no
  queued task) and enters the handler for it at most once, at most one Response is
  emitted for it.
\<close>

theorem response_at_most_once:
  "(\<not> exported request \<longrightarrow> get_idletime_done result request s = s)
   \<and> (exec a s = Some s' \<longrightarrow>
        responses_for rid (trace s') =
          responses_for rid (trace s) +
            (case a of
               Reply result' request' \<Rightarrow> if exported request' \<and> request_id request' = rid then 1 else 0
             | _ \<Rightarrow> 0))
   \<and> (execs as s = Some s''
        \<and> responses_for rid (trace s) = 0
        \<and> unanswered rid (inflight s) = 0
        \<and> queued rid (tasks s) = 0
        \<and> entered rid as \<le> 1 \<longrightarrow>
      responses_for rid (trace s'') \<le> 1)"
proof (intro conjI impI)
  assume "\<not> exported request"
  then show "get_idletime_done result request s = s"
    by (simp add: done_unfold)
next
  assume "exec a s = Some s'"
  then show "responses_for rid (trace s') =
          responses_for rid (trace s) +
            (case a of
               Reply result' request' \<Rightarrow> if exported request' \<and> request_id request' = rid then 1 else 0
             | _ \<Rightarrow> 0)"
    by (rule exec_responses)
next
  assume run: "execs as s = Some s''
        \<and> responses_for rid (trace s) = 0
        \<and> unanswered rid (inflight s) = 0
        \<and> queued rid (tasks s) = 0
        \<and> entered rid as \<le> 1"
  then have "execs as s = Some s''" by simp
  from execs_budget [OF this, of rid] run show "responses_for rid (trace s'') \<le> 1"
    by linarith
qed

theorem response_at_most_once_witness:
  "\<not> exported (request_A\<lparr>exported := False\<rparr>)
   \<and> get_idletime_done (Inr 4200) (request_A\<lparr>exported := False\<rparr>) calling_state = calling_state
   \<and> exec (Reply (Inr 4200) request_A) calling_state = Some answered_state
   \<and> responses_for (request_id request_A) (trace answered_state) =
       responses_for (request_id request_A) (trace calling_state) + 1
   \<and> execs [Enter invocation_A, Leave, Work request_A, Reply (Inr 4200) request_A] initial_state =
       Some answered_state
   \<and> responses_for (request_id request_A) (trace initial_state) = 0
   \<and> unanswered (request_id request_A) (inflight initial_state) = 0
   \<and> queued (request_id request_A) (tasks initial_state) = 0
   \<and> entered (request_id request_A)
       [Enter invocation_A, Leave, Work request_A, Reply (Inr 4200) request_A] \<le> 1
   \<and> responses_for (request_id request_A) (trace answered_state) \<le> 1"
proof -
  have unexported: "\<not> exported (request_A\<lparr>exported := False\<rparr>)"
    by simp
  have start: "responses_for (request_id request_A) (trace initial_state) = 0
     \<and> unanswered (request_id request_A) (inflight initial_state) = 0
     \<and> queued (request_id request_A) (tasks initial_state) = 0"
    by (simp add: initial_state_def responses_for_def unanswered_def queued_def)
  have once: "entered (request_id request_A)
       [Enter invocation_A, Leave, Work request_A, Reply (Inr 4200) request_A] \<le> 1"
    by (simp add: request_from_invocation_def invocation_A_def)
  from response_at_most_once
         [of "request_A\<lparr>exported := False\<rparr>" "Inr 4200" calling_state
             "Reply (Inr 4200) request_A" answered_state "request_id request_A"
             "[]" calling_state]
       unexported answering_step
  have step: "get_idletime_done (Inr 4200) (request_A\<lparr>exported := False\<rparr>) calling_state = calling_state
     \<and> responses_for (request_id request_A) (trace answered_state) =
         responses_for (request_id request_A) (trace calling_state) + 1"
    by (simp add: request_A_def)
  from response_at_most_once
         [of request_A "Inr 4200" initial_state
             "Enter invocation_A" "the (exec (Enter invocation_A) initial_state)" "request_id request_A"
             "[Enter invocation_A, Leave, Work request_A, Reply (Inr 4200) request_A]" answered_state]
       permitted_run start once
  have bound: "responses_for (request_id request_A) (trace answered_state) \<le> 1"
    by blast
  from unexported step answering_step permitted_run start once bound show ?thesis
    by blast
qed

text \<open>
  C5, as stated: every failed backend call completes the request with a Response of code
  2. For a request that is not exported a failed call emits nothing at all.
\<close>

theorem failed_call_unexported_counterexample:
  "get_idletime_done (Inl ''GDBus.Error:org.freedesktop.DBus.Error.NoReply'')
     (request_A\<lparr>exported := False\<rparr>) initial_state = initial_state
   \<and> responses_for (request_id request_A)
       (trace (get_idletime_done (Inl ''GDBus.Error:org.freedesktop.DBus.Error.NoReply'')
          (request_A\<lparr>exported := False\<rparr>) initial_state)) = 0"
  by (simp add: done_unfold fixture_defs responses_for_def)

text \<open>
  C5, amended. For every failed backend call, whatever its error, the callback emits one
  Response with code 2 and empty results when the request is exported, and nothing when
  it is not.
\<close>

theorem failed_call_response:
  "get_idletime_done (Inl message) request s =
     (if exported request then emit (Response (request_id request) 2 []) s else s)"
  by (simp add: done_unfold)

theorem failed_call_response_witness:
  "get_idletime_done (Inl ''GDBus.Error:org.freedesktop.DBus.Error.NoReply'') request_A initial_state =
     emit (Response (request_id request_A) 2 []) initial_state
   \<and> get_idletime_done (Inl ''GDBus.Error:org.freedesktop.DBus.Error.NoReply'')
       (request_A\<lparr>exported := False\<rparr>) initial_state = initial_state"
  using failed_call_response [of "''GDBus.Error:org.freedesktop.DBus.Error.NoReply''" request_A initial_state]
    failed_call_response [of "''GDBus.Error:org.freedesktop.DBus.Error.NoReply''" "request_A\<lparr>exported := False\<rparr>" initial_state]
  by (simp add: request_A_def)

text \<open>
  C6, as stated: a permitted call that the backend answers with an idle time gets a
  Response with code 0 whose results hold the idle time under \<open>idleTime\<close>. For
  \<open>request_A\<close>, permitted and exported, and the answer 4200, the Response has the code
  4200 and empty results; for the answer 0 the results are empty as well.
\<close>

theorem idle_time_not_in_results_counterexample:
  "execs [Enter invocation_A, Leave, Work request_A, Reply (Inr 4200) request_A] initial_state =
     Some answered_state
   \<and> last (trace answered_state) = Response (request_id request_A) 4200 []
   \<and> \<not> reports_idle_time (last (trace answered_state))
   \<and> \<not> reports_idle_time (last (trace (get_idletime_done (Inr 0) request_A initial_state)))"
  unfolding permitted_run by (simp add: done_unfold emit_def fixture_defs)

text \<open>
  C6, amended. For every call that is not denied the task makes one backend call and
  leaves it unanswered; when the backend answers with a value, the callback emits, for an
  exported request, one Response whose code is that value and whose results are empty,
  and nothing for a request that is not exported.
\<close>

theorem permitted_call_response:
  assumes "permissions s (xdp_app_info_get_id (app_info request), PERMISSION_TABLE, PERMISSION_ID) \<noteq> PERMISSION_NO"
  shows "backend_calls_for (request_id request) (trace (handle_get_idletime_in_thread_func request s)) =
           backend_calls_for (request_id request) (trace s) + 1
         \<and> inflight (handle_get_idletime_in_thread_func request s) = inflight s @ [request_id request]
         \<and> get_idletime_done (Inr v) request s1 =
             (if exported request then emit (Response (request_id request) v []) s1 else s1)"
  using assms by (simp add: thread_func_backend_calls thread_func_inflight done_unfold)

theorem permitted_call_response_witness:
  "permissions initial_state (xdp_app_info_get_id (app_info request_A), PERMISSION_TABLE, PERMISSION_ID) \<noteq> PERMISSION_NO
   \<and> backend_calls_for (request_id request_A) (trace (handle_get_idletime_in_thread_func request_A initial_state)) = 1
   \<and> inflight (handle_get_idletime_in_thread_func request_A initial_state) = [request_id request_A]
   \<and> get_idletime_done (Inr 4200) request_A initial_state =
       emit (Response (request_id request_A) 4200 []) initial_state"
proof -
  have allowed: "permissions initial_state (xdp_app_info_get_id (app_info request_A), PERMISSION_TABLE, PERMISSION_ID) \<noteq> PERMISSION_NO"
    by (simp add: initial_state_def)
  from permitted_call_response [OF allowed, of 4200 initial_state] allowed show ?thesis
    by (simp add: fixture_defs backend_calls_for_def)
qed

section \<open>The handler\<close>

text \<open>
  C8, as stated: the call is completed before the permission check or the backend query
  runs. The handler gives the task to the thread pool before it completes the call and
  holds no lock meanwhile (the task's \<open>REQUEST_AUTOLOCK\<close> waits only for holders of the
  request's lock), so this run is possible: the handler up to \<open>g_task_run_in_thread\<close>,
  the task, the rest of the handler. In it the permission store is read and written and
  the backend is called before the call is completed.
\<close>

theorem completion_after_check_counterexample:
  "execs [Enter invocation_A, Work request_A, Leave] initial_state = Some racing_state
   \<and> trace racing_state =
       [TaskRunInThread ''/org/freedesktop/portal/desktop/request/1_42/t1'',
        GetPermission ''com.example.A'' PERMISSION_TABLE PERMISSION_ID,
        Debug ''No idle-mnoitor permissions stored for %s: allowing'' [ArgStr ''com.example.A''],
        SetPermission ''com.example.A'' PERMISSION_TABLE PERMISSION_ID PERMISSION_YES,
        Debug ''Calling idle_monitor backend for %s'' [ArgStr ''com.example.A''],
        CallGetIdletime ''/org/freedesktop/portal/desktop/request/1_42/t1'' ''com.example.A'',
        CompleteGetIdletime '':1.42'' ''/org/freedesktop/portal/desktop/request/1_42/t1'']
   \<and> \<not> completed_first (trace racing_state)"
  by (simp add: run_defs)

text \<open>
  C8, amended. For every GetIdletime call the handler takes the request attached to the
  invocation, gives its task to the thread pool and then completes the call with the
  request's id, and returns TRUE. Its own path, run without interruption, neither reads
  nor writes the permission store and makes no backend call.
\<close>

theorem handler_dispatches_then_completes:
  "handle_get_idletime invocation s =
     (True,
      s\<lparr>trace := trace s @
           [TaskRunInThread (request_id (request_from_invocation invocation)),
            CompleteGetIdletime (sender invocation) (request_id (request_from_invocation invocation))],
        tasks := tasks s @ [request_from_invocation invocation]\<rparr>)
   \<and> (handling s = None \<longrightarrow>
        execs [Enter invocation, Leave] s = Some (snd (handle_get_idletime invocation s)))
   \<and> (execs [Enter invocation, Leave] s = Some s' \<longrightarrow>
        permissions s' = permissions s \<and> inflight s' = inflight s
        \<and> completed_first (drop (length (trace s)) (trace s')))"
  by (auto simp: handle_get_idletime_def handle_get_idletime_dispatch_def handle_get_idletime_complete_def
        io_defs Let_def split: option.splits)

theorem handler_dispatches_then_completes_witness:
  "handling initial_state = None
   \<and> execs [Enter invocation_A, Leave] initial_state =
       Some (initial_state\<lparr>trace :=
               [TaskRunInThread ''/org/freedesktop/portal/desktop/request/1_42/t1'',
                CompleteGetIdletime '':1.42'' ''/org/freedesktop/portal/desktop/request/1_42/t1''],
             tasks := [request_A]\<rparr>)
   \<and> handle_get_idletime invocation_A initial_state =
       (True, initial_state\<lparr>trace :=
               [TaskRunInThread ''/org/freedesktop/portal/desktop/request/1_42/t1'',
                CompleteGetIdletime '':1.42'' ''/org/freedesktop/portal/desktop/request/1_42/t1''],
             tasks := [request_A]\<rparr>)
   \<and> completed_first
       (drop (length (trace initial_state))
          [TaskRunInThread ''/org/freedesktop/portal/desktop/request/1_42/t1'',
           CompleteGetIdletime '':1.42'' ''/org/freedesktop/portal/desktop/request/1_42/t1''])"
proof -
  have idle: "handling initial_state = None"
    by (simp add: initial_state_def)
  from handler_dispatches_then_completes
         [of invocation_A initial_state
             "initial_state\<lparr>trace :=
               [TaskRunInThread ''/org/freedesktop/portal/desktop/request/1_42/t1'',
                CompleteGetIdletime '':1.42'' ''/org/freedesktop/portal/desktop/request/1_42/t1''],
             tasks := [request_A]\<rparr>"] idle
  show ?thesis
    by (simp add: fixture_defs request_from_invocation_def)
qed

section \<open>Construction and the call timeout\<close>

lemma sint_le_G_MAXINT: "sint (t :: gint) \<le> sint G_MAXINT"
proof -
  have "sint t < 2 ^ (LENGTH(32) - 1)" by (rule sint_lt)
  then show ?thesis by (simp add: G_MAXINT_def)
qed

lemma thread_func_impl [simp]: "impl (handle_get_idletime_in_thread_func request s) = impl s"
  by (cases "permissions s (xdp_app_info_get_id (app_info request), PERMISSION_TABLE, PERMISSION_ID)")
     (simp_all add: thread_func_cases io_defs)

lemma done_impl [simp]: "impl (get_idletime_done result request s) = impl s"
  by (simp add: done_unfold emit_def)

lemma exec_impl: "exec a s = Some s' \<Longrightarrow> impl s' = impl s"
  by (cases a)
     (auto simp: handle_get_idletime_dispatch_def handle_get_idletime_complete_def io_defs Let_def
        split: option.splits if_splits)

lemma no_timeout_with_G_MAXINT: "g_dbus_call_timeout G_MAXINT (- 1) = None"
  by (simp add: g_dbus_call_timeout_def G_MAXINT_def Let_def)

lemma expire_impossible:
  "map_option default_timeout (impl s) = Some G_MAXINT \<Longrightarrow> gdbus_exec (Expire request elapsed) s = None"
  by (auto simp: no_timeout_with_G_MAXINT split: option.splits)

lemma gdbus_exec_impl: "gdbus_exec ev s = Some s' \<Longrightarrow> impl s' = impl s"
  by (cases ev) (auto simp: exec_impl split: option.splits if_splits)

lemma exec_unanswered:
  "exec a s = Some s' \<Longrightarrow>
   unanswered rid (inflight s) \<le>
     unanswered rid (inflight s') +
       (case a of Reply result request \<Rightarrow> if request_id request = rid then 1 else 0 | _ \<Rightarrow> 0)"
proof (cases a)
  case (Enter invocation)
  assume "exec a s = Some s'"
  with Enter show ?thesis
    by (auto simp: handle_get_idletime_dispatch_def io_defs Let_def split: option.splits)
next
  case Leave
  assume "exec a s = Some s'"
  with Leave show ?thesis
    by (auto simp: handle_get_idletime_complete_def io_defs Let_def split: option.splits)
next
  case (Work request)
  assume "exec a s = Some s'"
  with Work show ?thesis
    by (auto simp: thread_func_inflight unanswered_def split: if_splits)
next
  case (Reply result request)
  assume "exec a s = Some s'"
  with Reply show ?thesis
    by (auto simp: unanswered_def length_filter_remove1 split: if_splits)
qed

lemma gdbus_exec_unanswered:
  assumes "map_option default_timeout (impl s) = Some G_MAXINT" and "gdbus_exec ev s = Some s'"
  shows "unanswered rid (inflight s) \<le> unanswered rid (inflight s') + answers_for rid [ev]"
proof (cases ev)
  case (Run a)
  with assms(2) have "exec a s = Some s'" by simp
  from exec_unanswered [OF this, of rid] Run show ?thesis
    by (cases a) simp_all
next
  case (Expire request elapsed)
  with assms expire_impossible [OF assms(1), of request elapsed] show ?thesis by simp
qed

lemma gdbus_execs_patient:
  assumes "map_option default_timeout (impl s) = Some G_MAXINT" and "gdbus_execs evs s = Some s'"
  shows "map_option default_timeout (impl s') = Some G_MAXINT
         \<and> expirations evs = 0
         \<and> unanswered rid (inflight s) \<le> unanswered rid (inflight s') + answers_for rid evs"
  using assms
proof (induction evs arbitrary: s)
  case Nil
  then show ?case by simp
next
  case (Cons ev evs)
  from Cons.prems(2) obtain s1 where step: "gdbus_exec ev s = Some s1" and rest: "gdbus_execs evs s1 = Some s'"
    by (auto split: option.splits)
  from gdbus_exec_impl [OF step] Cons.prems(1)
  have patient: "map_option default_timeout (impl s1) = Some G_MAXINT" by simp
  from step expire_impossible [OF Cons.prems(1)] have run: "expirations (ev # evs) = expirations evs"
    by (cases ev) auto
  have split: "answers_for rid (ev # evs) = answers_for rid [ev] + answers_for rid evs"
  proof (cases ev)
    case (Run a)
    then show ?thesis by (cases a) simp_all
  next
    case (Expire request elapsed)
    then show ?thesis by simp
  qed
  from Cons.IH [OF patient rest] gdbus_exec_unanswered [OF Cons.prems(1) step, of rid] run split
  show ?case by simp
qed

lemma created_timeout:
  "map_option default_timeout (impl (snd (idle_monitor_create None dbus_name s))) = Some G_MAXINT"
  by (simp add: idle_monitor_create_def g_dbus_proxy_set_default_timeout_def emit_def Let_def)

lemma created_run:
  "gdbus_execs [Run (Enter invocation_A), Run Leave, Run (Work request_A)] created_state =
     Some created_calling_state"
  by (simp add: run_defs created_state_def created_calling_state_def idle_monitor_create_def
        g_dbus_proxy_set_default_timeout_def idle_monitor_init_def)

lemma impatient_expires:
  "gdbus_exec (Expire request_A 30000) impatient_calling_state =
     Some (impatient_calling_state
             \<lparr>trace := trace impatient_calling_state @
                 [Response ''/org/freedesktop/portal/desktop/request/1_42/t1'' 2 []],
              inflight := []\<rparr>)"
  by (simp add: run_defs created_state_def created_calling_state_def impatient_calling_state_def
        idle_monitor_create_def g_dbus_proxy_set_default_timeout_def idle_monitor_init_def
        g_dbus_call_timeout_def G_MAXINT_def)

text \<open>
  C9. When the proxy is created, \<open>idle_monitor_create\<close> sets its default timeout to
  \<open>G_MAXINT\<close>, the largest value of a \<open>gint\<close>, and returns the service object; when the
  proxy cannot be created there is no proxy and no service object. In every run that
  follows the construction the default timeout stays \<open>G_MAXINT\<close>, GDBus ends no call by
  a timeout (no such event is in the run, and none is possible in the state reached,
  for any request and any time elapsed), and the unanswered calls of a request stay
  unanswered through every continuation in which no answer of the backend arrives for
  it. With a default timeout of 30 seconds the same call is ended by GDBus
  (\<open>impatient_expires\<close>).
\<close>

theorem idle_monitor_create_timeout:
  "map_option default_timeout (impl (snd (idle_monitor_create None dbus_name s))) = Some G_MAXINT
   \<and> fst (idle_monitor_create None dbus_name s) = Some \<lparr>version = 3\<rparr>
   \<and> sint G_MAXINT = 2 ^ 31 - 1
   \<and> (\<forall>t :: gint. sint t \<le> sint G_MAXINT)
   \<and> fst (idle_monitor_create (Some message) dbus_name s) = None
   \<and> impl (snd (idle_monitor_create (Some message) dbus_name s)) = None
   \<and> (gdbus_execs evs (snd (idle_monitor_create None dbus_name s)) = Some s' \<longrightarrow>
        map_option default_timeout (impl s') = Some G_MAXINT
        \<and> expirations evs = 0
        \<and> gdbus_exec (Expire request elapsed) s' = None
        \<and> unanswered rid (inflight (snd (idle_monitor_create None dbus_name s)))
             \<le> unanswered rid (inflight s') + answers_for rid evs)
   \<and> (gdbus_execs evs (snd (idle_monitor_create None dbus_name s)) = Some s'
        \<and> gdbus_execs evs' s' = Some s'' \<and> answers_for rid evs' = 0 \<longrightarrow>
        unanswered rid (inflight s') \<le> unanswered rid (inflight s''))"
proof (intro conjI impI)
  show "\<forall>t :: gint. sint t \<le> sint G_MAXINT"
    by (simp add: sint_le_G_MAXINT)
  show "sint G_MAXINT = 2 ^ 31 - 1"
    by (simp add: G_MAXINT_def)
  show "map_option default_timeout (impl (snd (idle_monitor_create None dbus_name s))) = Some G_MAXINT"
    by (rule created_timeout)
  show "fst (idle_monitor_create None dbus_name s) = Some \<lparr>version = 3\<rparr>"
    by (simp add: idle_monitor_create_def g_dbus_proxy_set_default_timeout_def idle_monitor_init_def
          emit_def Let_def)
  show "fst (idle_monitor_create (Some message) dbus_name s) = None"
    by (simp add: idle_monitor_create_def)
  show "impl (snd (idle_monitor_create (Some message) dbus_name s)) = None"
    by (simp add: idle_monitor_create_def g_warning_def emit_def)
next
  assume run: "gdbus_execs evs (snd (idle_monitor_create None dbus_name s)) = Some s'"
  note facts = gdbus_execs_patient [OF created_timeout run, of rid]
  from facts show "map_option default_timeout (impl s') = Some G_MAXINT" by simp
  then show "gdbus_exec (Expire request elapsed) s' = None" by (rule expire_impossible)
  from facts show "expirations evs = 0" by simp
  from facts show "unanswered rid (inflight (snd (idle_monitor_create None dbus_name s)))
             \<le> unanswered rid (inflight s') + answers_for rid evs" by simp
next
  assume runs: "gdbus_execs evs (snd (idle_monitor_create None dbus_name s)) = Some s'
        \<and> gdbus_execs evs' s' = Some s'' \<and> answers_for rid evs' = 0"
  then have run: "gdbus_execs evs (snd (idle_monitor_create None dbus_name s)) = Some s'"
    and rest: "gdbus_execs evs' s' = Some s''" and quiet: "answers_for rid evs' = 0"
    by simp_all
  from gdbus_execs_patient [OF created_timeout run, of rid]
  have patient: "map_option default_timeout (impl s') = Some G_MAXINT" by simp
  from gdbus_execs_patient [OF patient rest, of rid] quiet
  show "unanswered rid (inflight s') \<le> unanswered rid (inflight s'')" by simp
qed


theorem idle_monitor_create_timeout_witness:
  "gdbus_execs [Run (Enter invocation_A), Run Leave, Run (Work request_A)] created_state =
     Some created_calling_state
   \<and> map_option default_timeout (impl created_calling_state) = Some G_MAXINT
   \<and> expirations [Run (Enter invocation_A), Run Leave, Run (Work request_A)] = 0
   \<and> unanswered (request_id request_A) (inflight created_calling_state) = 1
   \<and> gdbus_exec (Expire request_A 30000) created_calling_state = None
   \<and> gdbus_execs [Run (Enter invocation_A)] created_calling_state =
       Some ((handle_get_idletime_dispatch invocation_A created_calling_state)\<lparr>handling := Some invocation_A\<rparr>)
   \<and> answers_for (request_id request_A) [Run (Enter invocation_A)] = 0
   \<and> unanswered (request_id request_A) (inflight created_calling_state)
       \<le> unanswered (request_id request_A)
            (inflight ((handle_get_idletime_dispatch invocation_A created_calling_state)
                         \<lparr>handling := Some invocation_A\<rparr>))"
proof -
  have run: "gdbus_execs [Run (Enter invocation_A), Run Leave, Run (Work request_A)]
       (snd (idle_monitor_create None ''org.freedesktop.impl.portal.desktop.gnome'' initial_state)) =
     Some created_calling_state"
    using created_run by (simp only: created_state_def)
  have more: "gdbus_execs [Run (Enter invocation_A)] created_calling_state =
       Some ((handle_get_idletime_dispatch invocation_A created_calling_state)\<lparr>handling := Some invocation_A\<rparr>)"
    by (simp add: created_calling_state_def calling_state_def)
  have quiet: "answers_for (request_id request_A) [Run (Enter invocation_A)] = 0"
    by simp
  have pending: "unanswered (request_id request_A) (inflight created_calling_state) = 1"
    by (simp add: created_calling_state_def calling_state_def request_A_def unanswered_def)
  from idle_monitor_create_timeout
         [of "''org.freedesktop.impl.portal.desktop.gnome''" initial_state "''no such name''"
             "[Run (Enter invocation_A), Run Leave, Run (Work request_A)]" created_calling_state
             request_A 30000 "request_id request_A"
             "[Run (Enter invocation_A)]"
             "(handle_get_idletime_dispatch invocation_A created_calling_state)\<lparr>handling := Some invocation_A\<rparr>"]
       run more quiet
  have "map_option default_timeout (impl created_calling_state) = Some G_MAXINT
     \<and> expirations [Run (Enter invocation_A), Run Leave, Run (Work request_A)] = 0
     \<and> gdbus_exec (Expire request_A 30000) created_calling_state = None
     \<and> unanswered (request_id request_A) (inflight created_calling_state)
         \<le> unanswered (request_id request_A)
              (inflight ((handle_get_idletime_dispatch invocation_A created_calling_state)
                           \<lparr>handling := Some invocation_A\<rparr>))"
    by blast
  with created_run more quiet pending show ?thesis
    by blast
qed

end
